theory Spec2Isabelle
  imports Main "HOL-Library.AList"
begin

section \<open>Data model\<close>

text \<open>
  The model follows \<^verbatim>\<open>src/shibboleth/middleware.py\<close>. Python strings are
  \<^typ>\<open>string\<close>. The dictionary \<^verbatim>\<open>request.META\<close> and the session are partial maps.
  The dictionary \<^verbatim>\<open>shib_attrs\<close> built by \<^verbatim>\<open>parse_attributes\<close> is an association
  list kept in insertion order, written with \<^const>\<open>AList.update\<close>, which replaces the
  value of a key that is already there and appends a new key at the end, as the
  assignment \<^verbatim>\<open>shib_attrs[name] = ...\<close> does.
\<close>

type_synonym shib_meta = "(string \<times> string) list"

text \<open>
  A user principal: its primary key, its username and the flag
  \<^verbatim>\<open>is_authenticated\<close> (false on the anonymous user).
\<close>

record user =
  pk :: nat
  username :: string
  is_authenticated :: bool

text \<open>
  A session value is either the attribute map stored under \<^verbatim>\<open>"shib"\<close> or some other
  value written by the host framework, kept opaque.
\<close>

datatype session_value = ShibMeta shib_meta | Opaque string

text \<open>
  The request: the header map, the current-user slot (\<^term>\<open>None\<close> when the attribute
  \<^verbatim>\<open>request.user\<close> does not exist, which line 22 tests with \<^verbatim>\<open>hasattr\<close>) and the
  session store.
\<close>

record request =
  META :: "string \<rightharpoonup> string"
  user :: "user option"
  session :: "string \<rightharpoonup> session_value"

text \<open>
  A value of \<^verbatim>\<open>settings.ATTRIBUTE_MAP\<close>: a tuple \<^verbatim>\<open>(required, name)\<close> or
  \<^verbatim>\<open>(required, name, attr_processor)\<close>, the processor a total function on
  strings. A tuple of another length, on which the unpacking of line 120 raises, is
  not a value of this type.
\<close>

datatype attr = Attr2 bool string | Attr3 bool string "string \<Rightarrow> string"

text \<open>
  The settings module \<^verbatim>\<open>shibboleth.settings\<close> is not among the sources; the options
  the middleware reads are taken as parameters. \<^verbatim>\<open>ATTRIBUTE_MAP\<close> is the list of the
  dictionary's items in iteration order. \<open>header\<close> is the class attribute
  \<^verbatim>\<open>self.header\<close>.
\<close>

record settings =
  header :: string
  UNQUOTE_ATTRIBUTES :: bool
  ATTRIBUTE_MAP :: "(string \<times> attr) list"
  GROUP_ATTRIBUTES :: "string list"
  GROUP_DELIMITERS :: "string list"

text \<open>
  The exceptions. \<^verbatim>\<open>ImproperlyConfigured\<close> and \<^verbatim>\<open>ShibbolethValidationError\<close> are
  raised by the middleware itself; the message of the second is formatted from the
  attribute map, and the model keeps the map. \<^verbatim>\<open>KeyError\<close>, with the missing key,
  is what the inherited \<^verbatim>\<open>clean_username\<close> raises when it does not find the
  backend of the current login in the session.
\<close>

datatype error = ImproperlyConfigured | ShibbolethValidationError shib_meta | KeyError string

text \<open>
  Functions of the standard library and of the host framework that the middleware
  calls, taken as parameters: \<^verbatim>\<open>urllib.parse.unquote\<close>, \<^verbatim>\<open>re.split\<close> (pattern first,
  then the string), the inherited \<^verbatim>\<open>clean_username\<close>, \<^verbatim>\<open>auth.authenticate\<close> and
  \<^verbatim>\<open>auth.login\<close> (which returns the request as the framework leaves it).
  \<^verbatim>\<open>clean_username\<close> either returns the cleaned name or raises, and an exception
  it raises leaves \<^verbatim>\<open>process_request\<close> on line 50. The others are total functions;
  only \<^verbatim>\<open>auth.login\<close> changes the request. What \<^verbatim>\<open>re.split\<close> returns is a list
  of strings: the \<^verbatim>\<open>None\<close> entries it produces for a pattern with groups, which
  \<^verbatim>\<open>filter(bool, ...)\<close> drops like empty strings, are not modelled.
\<close>

record collaborators =
  unquote :: "string \<Rightarrow> string"
  re_split :: "string \<Rightarrow> string \<Rightarrow> string list"
  clean_username :: "string \<Rightarrow> request \<Rightarrow> error + string"
  authenticate :: "request \<Rightarrow> string \<Rightarrow> shib_meta \<Rightarrow> user option"
  login :: "request \<Rightarrow> user \<Rightarrow> request"

text \<open>
  The user and group persistence layer is the host framework's. Its state is modelled
  by the table of groups, a group being identified by its unique name, and the
  membership table holding one row (user key, group name) for each membership.
\<close>

record django_db =
  auth_group :: "string list"
  auth_user_groups :: "(nat \<times> string) list"


text \<open>
  The calls \<^verbatim>\<open>process_request\<close> makes to \<^verbatim>\<open>parse_attributes\<close>, to the authentication
  collaborators, to \<^verbatim>\<open>update_user_groups\<close> and to the two hooks, recorded in the order
  they are made, so that "is not invoked" and "no login is performed" can be stated.
\<close>

datatype call =
  Call_parse_attributes
| Call_authenticate string shib_meta
| Call_login user
| Call_update_user_groups user
| Call_make_profile user shib_meta
| Call_setup_session

record world =
  req :: request
  db :: django_db
  calls :: "call list"

section \<open>Attribute parsing\<close>

text \<open>
  Lines 34 and 35, 124 and 125, 139 and 140: \<^verbatim>\<open>if settings.UNQUOTE_ATTRIBUTES: value = unquote(value)\<close>.
\<close>

definition decode :: "collaborators \<Rightarrow> settings \<Rightarrow> string \<Rightarrow> string" where
  "decode lib cfg v = (if UNQUOTE_ATTRIBUTES cfg then unquote lib v else v)"

text \<open>Lines 117 to 121: the tuple is unpacked, the processor defaulting to the identity.\<close>

fun unpack :: "attr \<Rightarrow> bool \<times> string \<times> (string \<Rightarrow> string)" where
  "unpack (Attr3 required name attr_processor) = (required, name, attr_processor)"
| "unpack (Attr2 required name) = (required, name, (\<lambda>x. x))"

definition required_of :: "attr \<Rightarrow> bool" where
  "required_of a = fst (unpack a)"

definition name_of :: "attr \<Rightarrow> string" where
  "name_of a = fst (snd (unpack a))"

definition processor_of :: "attr \<Rightarrow> string \<Rightarrow> string" where
  "processor_of a = snd (snd (unpack a))"

text \<open>
  Lines 122 to 128, one iteration of the loop. \<^verbatim>\<open>meta.get(header, None)\<close> is the map
  lookup; \<^verbatim>\<open>if value:\<close> holds for a string that is present and not empty.
\<close>

fun parse_attributes_step ::
  "collaborators \<Rightarrow> settings \<Rightarrow> (string \<rightharpoonup> string) \<Rightarrow> string \<times> attr \<Rightarrow> shib_meta \<times> bool
    \<Rightarrow> shib_meta \<times> bool" where
  "parse_attributes_step lib cfg meta (hdr, attr) (shib_attrs, err) =
     (case unpack attr of (required, name, attr_processor) \<Rightarrow>
        (case meta hdr of
           Some v \<Rightarrow>
             if v \<noteq> [] then
               (AList.update name (attr_processor (decode lib cfg v)) shib_attrs, err)
             else if required then (shib_attrs, True)
             else (shib_attrs, err)
         | None \<Rightarrow>
             if required then (shib_attrs, True) else (shib_attrs, err)))"

definition parse_attributes :: "collaborators \<Rightarrow> settings \<Rightarrow> request \<Rightarrow> shib_meta \<times> bool" where
  "parse_attributes lib cfg request =
     fold (parse_attributes_step lib cfg (META request)) (ATTRIBUTE_MAP cfg) ([], False)"

text \<open>
  The entries the claim about attribute parsing speaks of: for each configured header
  that is present with a value that is not empty, in configuration order, the internal
  name and the transformed, optionally decoded value.
\<close>

fun stored_entries :: "collaborators \<Rightarrow> settings \<Rightarrow> (string \<rightharpoonup> string) \<Rightarrow> (string \<times> attr) list
    \<Rightarrow> shib_meta" where
  "stored_entries lib cfg meta [] = []"
| "stored_entries lib cfg meta ((hdr, attr) # items) =
     (case meta hdr of
        Some v \<Rightarrow>
          if v \<noteq> [] then
            (name_of attr, processor_of attr (decode lib cfg v))
            # stored_entries lib cfg meta items
          else stored_entries lib cfg meta items
      | None \<Rightarrow> stored_entries lib cfg meta items)"

text \<open>A required entry whose header is missing from the header map, or empty in it.\<close>

definition unsatisfied :: "(string \<rightharpoonup> string) \<Rightarrow> string \<times> attr \<Rightarrow> bool" where
  "unsatisfied meta item =
     (required_of (snd item) \<and> (meta (fst item) = None \<or> meta (fst item) = Some []))"

section \<open>Group parsing\<close>

text \<open>Python's \<^verbatim>\<open>sep.join(xs)\<close>.\<close>

fun join_str :: "string \<Rightarrow> string list \<Rightarrow> string" where
  "join_str sep [] = []"
| "join_str sep [x] = x"
| "join_str sep (x # y # ys) = x @ sep @ join_str sep (y # ys)"

text \<open>
  Lines 138 to 142, one iteration: \<^verbatim>\<open>request.META.get(attr, "")\<close>, the optional
  decoding, one \<^verbatim>\<open>re.split\<close> on the joined pattern, and \<^verbatim>\<open>groups += filter(bool, ...)\<close>.
\<close>

definition parse_group_attributes_step ::
  "collaborators \<Rightarrow> settings \<Rightarrow> (string \<rightharpoonup> string) \<Rightarrow> string \<Rightarrow> string list \<Rightarrow> string list" where
  "parse_group_attributes_step lib cfg meta attr groups =
     (let value = (case meta attr of Some v \<Rightarrow> v | None \<Rightarrow> []);
          value = decode lib cfg value;
          parsed_groups = re_split lib (join_str ''|'' (GROUP_DELIMITERS cfg)) value
      in groups @ filter (\<lambda>t. t \<noteq> []) parsed_groups)"

definition parse_group_attributes :: "collaborators \<Rightarrow> settings \<Rightarrow> request \<Rightarrow> string list" where
  "parse_group_attributes lib cfg request =
     fold (parse_group_attributes_step lib cfg (META request)) (GROUP_ATTRIBUTES cfg) []"

subsection \<open>A model of \<^verbatim>\<open>re.split\<close> for literal patterns\<close>

text \<open>
  \<^verbatim>\<open>re.split\<close> is modelled on one fragment only: a pattern that is an alternation
  of literal strings, that is, one with no regular expression metacharacter other than
  the bar. There the alternatives are tried in order at each position, from left to
  right; a match ends the current token. An empty alternative matches the empty string,
  and after an empty match the next match at the same position has to be non-empty, as
  in Python 3.7 and later. On any other pattern the model gives no answer.
\<close>

text \<open>The metacharacters other than the bar; the last one is the backslash.\<close>

definition metacharacters :: "char list" where
  "metacharacters = [CHR ''.'', CHR ''^'', CHR ''$'', CHR ''*'', CHR ''+'', CHR ''?'',
     CHR ''{'', CHR ''}'', CHR ''['', CHR '']'', CHR ''('', CHR '')'', CHR 0x5C]"


fun split_on_bar :: "string \<Rightarrow> string list" where
  "split_on_bar [] = [[]]"
| "split_on_bar (c # cs) =
     (if c = CHR ''|'' then [] # split_on_bar cs
      else (case split_on_bar cs of a # as \<Rightarrow> (c # a) # as | [] \<Rightarrow> [[c]]))"

fun first_match :: "string list \<Rightarrow> bool \<Rightarrow> string \<Rightarrow> string option" where
  "first_match [] must_advance s = None"
| "first_match (a # as) must_advance s =
     (if take (length a) s = a \<and> \<not> (must_advance \<and> a = []) then Some a
      else first_match as must_advance s)"

function split_scan :: "string list \<Rightarrow> bool \<Rightarrow> string \<Rightarrow> string \<Rightarrow> string list" where
  "split_scan alts must_advance tok s =
     (case first_match alts must_advance s of
        Some a \<Rightarrow> tok # split_scan alts (a = []) [] (drop (length a) s)
      | None \<Rightarrow>
          (case s of
             [] \<Rightarrow> [tok]
           | c # cs \<Rightarrow> split_scan alts False (tok @ [c]) cs))"
  by pat_completeness auto
termination
proof (relation "measure (\<lambda>(alts, adv, tok, s). 2 * length s + (if adv then 0 else 1))")
  have fm: "length a \<le> length s \<and> \<not> (adv \<and> a = [])"
    if "first_match alts adv s = Some a" for alts adv s a
    using that
  proof (induction alts)
    case Nil
    then show ?case by simp
  next
    case (Cons b alts)
    show ?case
    proof (cases "take (length b) s = b \<and> \<not> (adv \<and> b = [])")
      case True
      with Cons.prems have ab: "a = b" by simp
      from True have "length (take (length b) s) = length b" by simp
      then have "length b \<le> length s" by simp
      with True ab show ?thesis by simp
    next
      case False
      with Cons show ?thesis by auto
    qed
  qed
  show "wf (measure (\<lambda>(alts, adv, tok, s). 2 * length s + (if adv then 0 else 1)))"
    by simp
  show "((alts, a = [], [], drop (length a) s), (alts, must_advance, tok, s))
      \<in> measure (\<lambda>(alts, adv, tok, s). 2 * length s + (if adv then 0 else 1))"
    if "first_match alts must_advance s = Some a"
    for alts :: "string list" and must_advance :: bool and tok s a :: string
  proof -
    from fm [OF that] have "length a \<le> length s" and "\<not> (must_advance \<and> a = [])"
      by simp_all
    then show ?thesis by (cases a) auto
  qed
  show "((alts, False, tok @ [c], cs), (alts, must_advance, tok, s))
      \<in> measure (\<lambda>(alts, adv, tok, s). 2 * length s + (if adv then 0 else 1))"
    if "s = c # cs"
    for alts :: "string list" and must_advance :: bool and tok s cs :: string and c :: char
    using that by simp
qed

declare split_scan.simps [simp del]

definition re_split_literal :: "string \<Rightarrow> string \<Rightarrow> string list option" where
  "re_split_literal pattern s =
     (if list_all (\<lambda>c. c \<notin> set metacharacters) pattern
      then Some (split_scan (split_on_bar pattern) False [] s)
      else None)"

section \<open>Group reconciliation\<close>

text \<open>
  The operations of the persistence layer: \<^verbatim>\<open>user.groups.all()\<close> (the names of the
  user's groups, read once), \<^verbatim>\<open>group.user_set.remove(user)\<close>,
  \<^verbatim>\<open>group.user_set.add(user)\<close> (no second row for a membership that exists) and
  \<^verbatim>\<open>Group.objects.get_or_create(name=g)\<close>.
\<close>

definition user_groups_all :: "user \<Rightarrow> django_db \<Rightarrow> string list" where
  "user_groups_all usr d = map snd (filter (\<lambda>row. fst row = pk usr) (auth_user_groups d))"

definition user_set_remove :: "string \<Rightarrow> user \<Rightarrow> django_db \<Rightarrow> django_db" where
  "user_set_remove g usr d = d\<lparr>auth_user_groups := removeAll (pk usr, g) (auth_user_groups d)\<rparr>"

definition user_set_add :: "string \<Rightarrow> user \<Rightarrow> django_db \<Rightarrow> django_db" where
  "user_set_add g usr d =
     (if (pk usr, g) \<in> set (auth_user_groups d) then d
      else d\<lparr>auth_user_groups := auth_user_groups d @ [(pk usr, g)]\<rparr>)"

definition get_or_create :: "string \<Rightarrow> django_db \<Rightarrow> django_db" where
  "get_or_create g d =
     (if g \<in> set (auth_group d) then d else d\<lparr>auth_group := auth_group d @ [g]\<rparr>)"

text \<open>Lines 98 to 100, the body of the first loop.\<close>

definition remove_step :: "string list \<Rightarrow> user \<Rightarrow> string \<Rightarrow> django_db \<Rightarrow> django_db" where
  "remove_step groups usr g d = (if g \<notin> set groups then user_set_remove g usr d else d)"

text \<open>Lines 102 to 104, the body of the second loop.\<close>

definition add_step :: "user \<Rightarrow> string \<Rightarrow> django_db \<Rightarrow> django_db" where
  "add_step usr g d = user_set_add g usr (get_or_create g d)"

text \<open>Lines 98 to 104, with the list computed on line 96 as an argument.\<close>

definition update_user_groups_from :: "string list \<Rightarrow> user \<Rightarrow> django_db \<Rightarrow> django_db" where
  "update_user_groups_from groups usr d =
     fold (add_step usr) groups
       (fold (remove_step groups usr) (user_groups_all usr d) d)"

definition update_user_groups ::
  "collaborators \<Rightarrow> settings \<Rightarrow> request \<Rightarrow> user \<Rightarrow> django_db \<Rightarrow> django_db" where
  "update_user_groups lib cfg request usr d =
     update_user_groups_from (parse_group_attributes lib cfg request) usr d"

section \<open>The request hook\<close>

text \<open>The two hooks of lines 80 to 93 do nothing.\<close>

definition make_profile :: "user \<Rightarrow> shib_meta \<Rightarrow> world \<Rightarrow> world" where
  "make_profile usr shib_meta w = w"

definition setup_session :: "world \<Rightarrow> world" where
  "setup_session w = w"

definition record_call :: "call \<Rightarrow> world \<Rightarrow> world" where
  "record_call c w = w\<lparr>calls := calls w @ [c]\<rparr>"

text \<open>
  Lines 62 to 78: what follows a successful parse. The state \<open>w\<close> already holds the
  session write of line 56.
\<close>

definition authenticate_and_login ::
  "collaborators \<Rightarrow> settings \<Rightarrow> string \<Rightarrow> shib_meta \<Rightarrow> world \<Rightarrow> world" where
  "authenticate_and_login lib cfg uname shib_meta w =
     (let w1 = record_call (Call_authenticate uname shib_meta) w in
      case authenticate lib (req w1) uname shib_meta of
        None \<Rightarrow> w1
      | Some usr \<Rightarrow>
          (let w2 = w1\<lparr>req := (req w1)\<lparr>user := Some usr\<rparr>\<rparr>;
               w3 = record_call (Call_login usr) (w2\<lparr>req := login lib (req w2) usr\<rparr>);
               w4 = (if GROUP_ATTRIBUTES cfg \<noteq> [] then
                       record_call (Call_update_user_groups usr)
                         (w3\<lparr>db := update_user_groups lib cfg (req w3) usr (db w3)\<rparr>)
                     else w3);
               w5 = record_call (Call_make_profile usr shib_meta) (make_profile usr shib_meta w4)
           in record_call Call_setup_session (setup_session w5)))"

text \<open>
  Lines 53 to 60, then the rest: the parse, the unconditional session write, the
  validation error.
\<close>

definition parse_and_store ::
  "collaborators \<Rightarrow> settings \<Rightarrow> string \<Rightarrow> world \<Rightarrow> (error + unit) \<times> world" where
  "parse_and_store lib cfg uname w =
     (case parse_attributes lib cfg (req w) of (shib_meta, err) \<Rightarrow>
        (let w1 = record_call Call_parse_attributes w;
             w2 = w1\<lparr>req := (req w1)\<lparr>session := (session (req w1))(''shib'' \<mapsto> ShibMeta shib_meta)\<rparr>\<rparr>
         in if err then (Inl (ShibbolethValidationError shib_meta), w2)
            else (Inr (), authenticate_and_login lib cfg uname shib_meta w2)))"

text \<open>
  Lines 20 to 78. The result pairs the outcome (\<open>Inl\<close> an exception raised, \<open>Inr ()\<close> a
  normal return) with the state left behind.
\<close>

definition process_request ::
  "collaborators \<Rightarrow> settings \<Rightarrow> world \<Rightarrow> (error + unit) \<times> world" where
  "process_request lib cfg w =
     (case user (req w) of
        None \<Rightarrow> (Inl ImproperlyConfigured, w)
      | Some current \<Rightarrow>
          (case META (req w) (header cfg) of
             None \<Rightarrow> (Inr (), w)
           | Some raw \<Rightarrow>
               (let uname = decode lib cfg raw in
                if uname = [] then (Inr (), w)
                else if is_authenticated current then
                  (case clean_username lib uname (req w) of
                     Inl e \<Rightarrow> (Inl e, w)
                   | Inr cleaned \<Rightarrow>
                       if username current = cleaned then (Inr (), w)
                       else parse_and_store lib cfg uname w)
                else parse_and_store lib cfg uname w)))"

text \<open>
  The state right after line 56: the call of \<^verbatim>\<open>parse_attributes\<close> made and its
  map stored in the session under \<^verbatim>\<open>"shib"\<close>.
\<close>

definition stored_world :: "collaborators \<Rightarrow> settings \<Rightarrow> world \<Rightarrow> world" where
  "stored_world lib cfg w =
     (record_call Call_parse_attributes w)
       \<lparr>req := (req w)\<lparr>session :=
          (session (req w))(''shib'' \<mapsto> ShibMeta (fst (parse_attributes lib cfg (req w))))\<rparr>\<rparr>"

section \<open>Example inputs\<close>

definition anonymous :: user where
  "anonymous = \<lparr>pk = 0, username = [], is_authenticated = False\<rparr>"

definition alice :: user where
  "alice = \<lparr>pk = 1, username = ''alice'', is_authenticated = True\<rparr>"

text \<open>
  The split function of the examples, whose patterns are all literal: on a literal
  pattern it is the model of \<^verbatim>\<open>re.split\<close>. On any other pattern, which no example
  uses, it returns no token and stands for nothing.
\<close>

definition re_split_on_literals :: "string \<Rightarrow> string \<Rightarrow> string list" where
  "re_split_on_literals pattern s =
     (case re_split_literal pattern s of Some tokens \<Rightarrow> tokens | None \<Rightarrow> [])"

text \<open>
  The \<^verbatim>\<open>clean_username\<close> of the examples, after the host framework's: it looks up
  the backend of the current login in the session under \<^verbatim>\<open>"_auth_user_backend"\<close>,
  raising \<^verbatim>\<open>KeyError\<close> when the key is missing, and the backend leaves the name as
  it is.
\<close>

definition clean_username_by_session :: "string \<Rightarrow> request \<Rightarrow> error + string" where
  "clean_username_by_session uname r =
     (case session r ''_auth_user_backend'' of
        None \<Rightarrow> Inl (KeyError ''_auth_user_backend'')
      | Some backend \<Rightarrow> Inr uname)"

text \<open>
  Collaborators for the examples: no decoding, the two functions above, a backend that
  matches nobody and a login that leaves the request as it is.
\<close>

definition lib0 :: collaborators where
  "lib0 = \<lparr>unquote = (\<lambda>s. s), re_split = re_split_on_literals,
     clean_username = clean_username_by_session, authenticate = (\<lambda>r u m. None),
     login = (\<lambda>r u. r)\<rparr>"



definition cfg_mail_cn :: settings where
  "cfg_mail_cn = \<lparr>header = ''REMOTE_USER'', UNQUOTE_ATTRIBUTES = False,
     ATTRIBUTE_MAP = [(''HTTP_MAIL'', Attr2 True ''mail''), (''HTTP_CN'', Attr2 False ''cn'')],
     GROUP_ATTRIBUTES = [''HTTP_GROUPS''], GROUP_DELIMITERS = ['';'']\<rparr>"

definition cfg_alias :: settings where
  "cfg_alias = \<lparr>header = ''REMOTE_USER'', UNQUOTE_ATTRIBUTES = False,
     ATTRIBUTE_MAP = [(''HTTP_MAIL'', Attr2 False ''email''), (''HTTP_EPPN'', Attr2 False ''email'')],
     GROUP_ATTRIBUTES = [], GROUP_DELIMITERS = ['';'']\<rparr>"

definition req_cn_only :: request where
  "req_cn_only = \<lparr>META = [''HTTP_CN'' \<mapsto> ''Jane Doe''], user = Some anonymous,
     session = Map.empty\<rparr>"

definition req_mail_empty :: request where
  "req_mail_empty = \<lparr>META = [''HTTP_MAIL'' \<mapsto> [], ''HTTP_CN'' \<mapsto> ''Jane''],
     user = Some anonymous, session = Map.empty\<rparr>"

definition req_mail_absent :: request where
  "req_mail_absent = \<lparr>META = [''HTTP_CN'' \<mapsto> ''Jane''],
     user = Some anonymous, session = Map.empty\<rparr>"

definition req_mail_eppn :: request where
  "req_mail_eppn = \<lparr>META = [''HTTP_MAIL'' \<mapsto> ''jane@example.com'', ''HTTP_EPPN'' \<mapsto> ''jd17''],
     user = Some anonymous, session = Map.empty\<rparr>"


text \<open>
  A database in which user 1 is in the groups A and C and user 2 in the group C.
\<close>

definition db_AC :: django_db where
  "db_AC = \<lparr>auth_group = [''A'', ''C''],
     auth_user_groups = [(1, ''A''), (1, ''C''), (2, ''C'')]\<rparr>"

definition empty_db :: django_db where
  "empty_db = \<lparr>auth_group = [], auth_user_groups = []\<rparr>"

definition world_of :: "request \<Rightarrow> world" where
  "world_of r = \<lparr>req = r, db = empty_db, calls = []\<rparr>"

text \<open>Requests on which the attribute \<^verbatim>\<open>request.user\<close> does not exist.\<close>

definition req_no_slot :: request where
  "req_no_slot = \<lparr>META = Map.empty, user = None, session = Map.empty\<rparr>"

definition req_no_slot_alice :: request where
  "req_no_slot_alice = \<lparr>META = [''REMOTE_USER'' \<mapsto> ''alice''], user = None,
     session = Map.empty\<rparr>"

definition req_no_slot_bob :: request where
  "req_no_slot_bob = \<lparr>META = [''REMOTE_USER'' \<mapsto> ''bob'', ''HTTP_MAIL'' \<mapsto> ''bob@example.com''],
     user = None, session = Map.empty\<rparr>"

text \<open>Requests of the anonymous user, and of alice once she is logged in.\<close>

definition req_no_header :: request where
  "req_no_header = \<lparr>META = Map.empty, user = Some anonymous, session = Map.empty\<rparr>"

definition req_empty_header :: request where
  "req_empty_header = \<lparr>META = [''REMOTE_USER'' \<mapsto> []], user = Some anonymous,
     session = Map.empty\<rparr>"

text \<open>The session of a user who is logged in holds the path of the backend.\<close>

definition backend_path :: session_value where
  "backend_path = Opaque ''shibboleth.backends.ShibbolethRemoteUserBackend''"

definition req_alice_again :: request where
  "req_alice_again = \<lparr>META = [''REMOTE_USER'' \<mapsto> ''alice'', ''HTTP_MAIL'' \<mapsto> ''new@example.com''],
     user = Some alice,
     session = [''_auth_user_backend'' \<mapsto> backend_path,
                ''shib'' \<mapsto> ShibMeta [(''mail'', ''old@example.com'')]]\<rparr>"

definition req_bob :: request where
  "req_bob = \<lparr>META = [''REMOTE_USER'' \<mapsto> ''bob'', ''HTTP_MAIL'' \<mapsto> ''bob@example.com''],
     user = Some anonymous, session = Map.empty\<rparr>"

definition req_bob_no_mail :: request where
  "req_bob_no_mail = \<lparr>META = [''REMOTE_USER'' \<mapsto> ''bob'', ''HTTP_CN'' \<mapsto> ''Bob''],
     user = Some anonymous, session = Map.empty\<rparr>"

definition req_alice_as_bob :: request where
  "req_alice_as_bob = \<lparr>META = [''REMOTE_USER'' \<mapsto> ''bob'', ''HTTP_MAIL'' \<mapsto> ''bob@example.com''],
     user = Some alice, session = [''_auth_user_backend'' \<mapsto> backend_path]\<rparr>"

definition req_alice_as_bob_no_mail :: request where
  "req_alice_as_bob_no_mail = \<lparr>META = [''REMOTE_USER'' \<mapsto> ''bob'', ''HTTP_CN'' \<mapsto> ''Bob''],
     user = Some alice, session = [''_auth_user_backend'' \<mapsto> backend_path]\<rparr>"

text \<open>The same user and headers, with a session that does not hold the backend.\<close>

definition req_alice_as_bob_no_backend :: request where
  "req_alice_as_bob_no_backend =
     \<lparr>META = [''REMOTE_USER'' \<mapsto> ''bob'', ''HTTP_MAIL'' \<mapsto> ''bob@example.com''],
      user = Some alice, session = Map.empty\<rparr>"

lemmas ex_defs = world_of_def empty_db_def lib0_def cfg_mail_cn_def anonymous_def alice_def
  decode_def clean_username_by_session_def

section \<open>Attribute parsing: results\<close>

lemma step_snd:
  "snd (parse_attributes_step lib cfg meta item (acc, e)) = (e \<or> unsatisfied meta item)"
  by (cases item; cases "snd item")
     (auto simp: unsatisfied_def required_of_def split: option.splits)

lemma fold_step_snd:
  "snd (fold (parse_attributes_step lib cfg meta) items (acc, e))
     = (e \<or> (\<exists>item \<in> set items. unsatisfied meta item))"
proof (induction items arbitrary: acc e)
  case Nil
  then show ?case by simp
next
  case (Cons item items)
  obtain acc' e' where st: "parse_attributes_step lib cfg meta item (acc, e) = (acc', e')"
    by (cases "parse_attributes_step lib cfg meta item (acc, e)")
  from step_snd [of lib cfg meta item acc e] st have "e' = (e \<or> unsatisfied meta item)"
    by simp
  with Cons.IH [of acc' e'] st show ?case by auto
qed

lemma step_fst:
  "map_of (fst (parse_attributes_step lib cfg meta item (acc, e)))
     = map_of (rev (stored_entries lib cfg meta [item]) @ acc)"
  by (cases item; cases "snd item")
     (auto simp: name_of_def processor_of_def AList.update_conv' split: option.splits)

lemma fold_step_fst:
  "map_of (fst (fold (parse_attributes_step lib cfg meta) items (acc, e)))
     = map_of (rev (stored_entries lib cfg meta items) @ acc)"
proof (induction items arbitrary: acc e)
  case Nil
  then show ?case by simp
next
  case (Cons item items)
  obtain acc' e' where st: "parse_attributes_step lib cfg meta item (acc, e) = (acc', e')"
    by (cases "parse_attributes_step lib cfg meta item (acc, e)")
  have m: "map_of acc' = map_of (rev (stored_entries lib cfg meta [item]) @ acc)"
    using step_fst [of lib cfg meta item acc e] st by simp
  have "stored_entries lib cfg meta (item # items)
          = stored_entries lib cfg meta [item] @ stored_entries lib cfg meta items"
    by (cases item) (simp split: option.splits)
  with Cons.IH [of acc' e'] st m show ?case
    by (simp add: map_add_def)
qed

lemma stored_entries_mem:
  "(h, a) \<in> set items \<Longrightarrow> meta h = Some v \<Longrightarrow> v \<noteq> [] \<Longrightarrow>
     (name_of a, processor_of a (decode lib cfg v)) \<in> set (stored_entries lib cfg meta items)"
  by (induction items) (auto split: option.splits)

lemma stored_entries_names:
  "(n, x) \<in> set (stored_entries lib cfg meta items) \<Longrightarrow>
     n \<in> (\<lambda>item. name_of (snd item)) ` set items"
proof (induction items)
  case Nil
  then show ?case by simp
next
  case (Cons item items)
  obtain h a where item: "item = (h, a)" by (cases item)
  from Cons.prems have "n = name_of a \<or> (n, x) \<in> set (stored_entries lib cfg meta items)"
    by (auto simp: item split: option.splits if_splits)
  with Cons.IH show ?case by (auto simp: item)
qed

lemma stored_entries_distinct:
  "distinct (map (\<lambda>item. name_of (snd item)) items) \<Longrightarrow>
     distinct (map fst (stored_entries lib cfg meta items))"
proof (induction items)
  case Nil
  then show ?case by simp
next
  case (Cons item items)
  obtain h a where item: "item = (h, a)" by (cases item)
  from Cons.prems have notin: "name_of a \<notin> (\<lambda>item. name_of (snd item)) ` set items"
    and d: "distinct (map (\<lambda>item. name_of (snd item)) items)"
    by (auto simp: item)
  from notin stored_entries_names [of "name_of a" _ lib cfg meta items]
  have "name_of a \<notin> fst ` set (stored_entries lib cfg meta items)" by auto
  with Cons.IH [OF d] show ?case
    by (auto simp: item split: option.splits)
qed

text \<open>
  C1, as amended. For every configuration and header map, the map returned by
  \<^verbatim>\<open>parse_attributes\<close> is the one obtained from the entries of the configured headers
  that are present with a non-empty value, a later entry replacing an earlier one of the
  same internal name. So it has an entry under the internal name of every such header,
  whether or not a required header is missing before or after it; when the internal
  names are distinct that entry is the transformed, optionally decoded value of the
  header. The error flag is set exactly when some entry marked required has a header
  that is absent from the header map or empty in it.
\<close>

theorem parse_attributes_result:
  "map_of (fst (parse_attributes lib cfg r))
      = map_of (rev (stored_entries lib cfg (META r) (ATTRIBUTE_MAP cfg)))
   \<and> (\<forall>(h, a) \<in> set (ATTRIBUTE_MAP cfg). \<forall>v. META r h = Some v \<and> v \<noteq> [] \<longrightarrow>
          map_of (fst (parse_attributes lib cfg r)) (name_of a) \<noteq> None)
   \<and> (distinct (map (\<lambda>item. name_of (snd item)) (ATTRIBUTE_MAP cfg)) \<longrightarrow>
        (\<forall>(h, a) \<in> set (ATTRIBUTE_MAP cfg). \<forall>v. META r h = Some v \<and> v \<noteq> [] \<longrightarrow>
           map_of (fst (parse_attributes lib cfg r)) (name_of a)
             = Some (processor_of a (decode lib cfg v))))
   \<and> (snd (parse_attributes lib cfg r)
        \<longleftrightarrow> (\<exists>item \<in> set (ATTRIBUTE_MAP cfg). unsatisfied (META r) item))"
proof -
  let ?items = "ATTRIBUTE_MAP cfg"
  let ?st = "stored_entries lib cfg (META r) ?items"
  have m: "map_of (fst (parse_attributes lib cfg r)) = map_of (rev ?st)"
    using fold_step_fst [of lib cfg "META r" ?items "[]" False]
    by (simp add: parse_attributes_def)
  have ex: "map_of (fst (parse_attributes lib cfg r)) (name_of a) \<noteq> None"
    if "(h, a) \<in> set ?items" "META r h = Some v" "v \<noteq> []" for h a v
  proof -
    from that stored_entries_mem [of h a ?items "META r" v lib cfg]
    have "name_of a \<in> fst ` set (rev ?st)" by force
    then show ?thesis unfolding m by (simp add: map_of_eq_None_iff)
  qed
  have val: "map_of (fst (parse_attributes lib cfg r)) (name_of a)
        = Some (processor_of a (decode lib cfg v))"
    if d: "distinct (map (\<lambda>item. name_of (snd item)) ?items)"
      and "(h, a) \<in> set ?items" "META r h = Some v" "v \<noteq> []" for h a v
  proof -
    from stored_entries_distinct [OF d, of lib cfg "META r"]
    have "distinct (map fst (rev ?st))" by (simp add: rev_map [symmetric])
    moreover from that stored_entries_mem [of h a ?items "META r" v lib cfg]
    have "(name_of a, processor_of a (decode lib cfg v)) \<in> set (rev ?st)" by simp
    ultimately show ?thesis unfolding m by (rule map_of_is_SomeI)
  qed
  have e: "snd (parse_attributes lib cfg r) \<longleftrightarrow> (\<exists>item \<in> set ?items. unsatisfied (META r) item)"
    using fold_step_snd [of lib cfg "META r" ?items "[]" False]
    by (simp add: parse_attributes_def)
  from m ex val e show ?thesis by blast
qed

text \<open>
  The scenario of the specification: the required \<^verbatim>\<open>HTTP_MAIL\<close> is absent and the
  optional \<^verbatim>\<open>HTTP_CN\<close> is present.
\<close>

theorem parse_attributes_result_witness:
  "map_of (fst (parse_attributes lib0 cfg_mail_cn req_cn_only)) ''cn'' = Some ''Jane Doe''
   \<and> map_of (fst (parse_attributes lib0 cfg_mail_cn req_cn_only)) ''mail'' = None
   \<and> snd (parse_attributes lib0 cfg_mail_cn req_cn_only)"
  using parse_attributes_result [of lib0 cfg_mail_cn req_cn_only]
  by (simp add: cfg_mail_cn_def req_cn_only_def lib0_def unsatisfied_def required_of_def
      name_of_def processor_of_def decode_def)

text \<open>
  C1 as it is stated fails. A configured header that is present in the header map with
  the empty string gets no entry, and sets the error flag although no required header
  is absent. And of two configured headers with the same internal name, both present,
  only the later one has its value in the map.
\<close>

theorem parse_attributes_present_counterexample:
  "META req_mail_empty ''HTTP_MAIL'' = Some []
   \<and> parse_attributes lib0 cfg_mail_cn req_mail_empty = ([(''cn'', ''Jane'')], True)
   \<and> META req_mail_eppn ''HTTP_MAIL'' = Some ''jane@example.com''
   \<and> parse_attributes lib0 cfg_alias req_mail_eppn = ([(''email'', ''jd17'')], False)"
  by (simp add: parse_attributes_def cfg_mail_cn_def cfg_alias_def req_mail_empty_def
      req_mail_eppn_def lib0_def decode_def)

lemma step_empty_absent:
  "parse_attributes_step lib cfg (m(h \<mapsto> [])) item acc
     = parse_attributes_step lib cfg (m(h := None)) item acc"
  by (cases item; cases acc) (simp split: prod.splits)

text \<open>
  C9. A header that is present with the empty string is treated as an absent one: the
  result of \<^verbatim>\<open>parse_attributes\<close> is the same for the two header maps, and in both the
  iteration for that header stores nothing and sets the error flag when the entry is
  marked required.
\<close>

theorem parse_attributes_empty_as_absent:
  "parse_attributes lib cfg (r\<lparr>META := (META r)(h \<mapsto> [])\<rparr>)
      = parse_attributes lib cfg (r\<lparr>META := (META r)(h := None)\<rparr>)
   \<and> parse_attributes_step lib cfg ((META r)(h \<mapsto> [])) (h, a) (shib_attrs, err)
      = (shib_attrs, err \<or> required_of a)
   \<and> parse_attributes_step lib cfg ((META r)(h := None)) (h, a) (shib_attrs, err)
      = (shib_attrs, err \<or> required_of a)"
proof -
  have "parse_attributes_step lib cfg ((META r)(h \<mapsto> []))
      = parse_attributes_step lib cfg ((META r)(h := None))"
    by (intro ext) (rule step_empty_absent)
  then have "parse_attributes lib cfg (r\<lparr>META := (META r)(h \<mapsto> [])\<rparr>)
      = parse_attributes lib cfg (r\<lparr>META := (META r)(h := None)\<rparr>)"
    by (simp add: parse_attributes_def)
  moreover have "parse_attributes_step lib cfg ((META r)(h \<mapsto> [])) (h, a) (shib_attrs, err)
      = (shib_attrs, err \<or> required_of a)"
    by (cases a) (auto simp: required_of_def)
  moreover have "parse_attributes_step lib cfg ((META r)(h := None)) (h, a) (shib_attrs, err)
      = (shib_attrs, err \<or> required_of a)"
    by (cases a) (auto simp: required_of_def)
  ultimately show ?thesis by simp
qed

text \<open>
  The required \<^verbatim>\<open>HTTP_MAIL\<close> empty and absent: the same result, with the error flag.
\<close>

theorem parse_attributes_empty_as_absent_witness:
  "parse_attributes lib0 cfg_mail_cn req_mail_empty
      = parse_attributes lib0 cfg_mail_cn req_mail_absent
   \<and> parse_attributes lib0 cfg_mail_cn req_mail_absent = ([(''cn'', ''Jane'')], True)"
proof -
  have e: "req_mail_empty = req_mail_absent\<lparr>META := (META req_mail_absent)(''HTTP_MAIL'' \<mapsto> [])\<rparr>"
    by (simp add: req_mail_empty_def req_mail_absent_def fun_upd_twist)
  have a: "req_mail_absent = req_mail_absent\<lparr>META := (META req_mail_absent)(''HTTP_MAIL'' := None)\<rparr>"
    by (simp add: req_mail_absent_def)
  have "parse_attributes lib0 cfg_mail_cn req_mail_empty
      = parse_attributes lib0 cfg_mail_cn req_mail_absent"
    using parse_attributes_empty_as_absent [of lib0 cfg_mail_cn req_mail_absent "''HTTP_MAIL''"]
    e a by metis
  moreover have "parse_attributes lib0 cfg_mail_cn req_mail_absent = ([(''cn'', ''Jane'')], True)"
    by (simp add: parse_attributes_def cfg_mail_cn_def req_mail_absent_def lib0_def decode_def)
  ultimately show ?thesis by simp
qed

section \<open>Group parsing: results\<close>














text \<open>
  Outside the fragment the model gives no answer: a dot, a group and a lone plus sign
  are not literal.
\<close>

lemma re_split_literal_not_modelled:
  "re_split_literal ''.'' ''a.b'' = None \<and> re_split_literal ''(;)'' ''a;b'' = None
   \<and> re_split_literal ''+'' ''a+b'' = None"
  by (simp add: re_split_literal_def metacharacters_def)

section \<open>Group reconciliation: results\<close>

lemma user_groups_all_iff:
  "g \<in> set (user_groups_all usr d) \<longleftrightarrow> (pk usr, g) \<in> set (auth_user_groups d)"
  by (force simp: user_groups_all_def)

lemma remove_step_rows:
  "set (auth_user_groups (remove_step groups usr g d))
     = set (auth_user_groups d) - (if g \<in> set groups then {} else {(pk usr, g)})"
  by (simp add: remove_step_def user_set_remove_def)

lemma remove_step_groups: "auth_group (remove_step groups usr g d) = auth_group d"
  by (simp add: remove_step_def user_set_remove_def)

lemma fold_remove_rows:
  "set (auth_user_groups (fold (remove_step groups usr) gs d))
     = set (auth_user_groups d) - {(pk usr, g) | g. g \<in> set gs \<and> g \<notin> set groups}"
proof (induction gs arbitrary: d)
  case Nil
  then show ?case by simp
next
  case (Cons g gs)
  show ?case
    unfolding fold_simps Cons.IH remove_step_rows by auto
qed

lemma fold_remove_groups:
  "auth_group (fold (remove_step groups usr) gs d) = auth_group d"
  by (induction gs arbitrary: d) (simp_all add: remove_step_groups)

lemma add_step_rows:
  "set (auth_user_groups (add_step usr g d)) = insert (pk usr, g) (set (auth_user_groups d))"
  by (auto simp: add_step_def user_set_add_def get_or_create_def)

lemma add_step_groups:
  "set (auth_group (add_step usr g d)) = insert g (set (auth_group d))"
  by (auto simp: add_step_def user_set_add_def get_or_create_def)

lemma fold_add_rows:
  "set (auth_user_groups (fold (add_step usr) gs d))
     = set (auth_user_groups d) \<union> {(pk usr, g) | g. g \<in> set gs}"
proof (induction gs arbitrary: d)
  case Nil
  then show ?case by simp
next
  case (Cons g gs)
  show ?case
    unfolding fold_simps Cons.IH add_step_rows by auto
qed

lemma fold_add_groups:
  "set (auth_group (fold (add_step usr) gs d)) = set (auth_group d) \<union> set gs"
proof (induction gs arbitrary: d)
  case Nil
  then show ?case by simp
next
  case (Cons g gs)
  show ?case
    unfolding fold_simps Cons.IH add_step_groups by auto
qed

lemma update_rows:
  "set (auth_user_groups (update_user_groups_from groups usr d))
     = {row \<in> set (auth_user_groups d). fst row \<noteq> pk usr} \<union> {(pk usr, g) | g. g \<in> set groups}"
  unfolding update_user_groups_from_def fold_add_rows fold_remove_rows
  by (auto simp: user_groups_all_iff)

lemma update_membership:
  "set (user_groups_all usr (update_user_groups_from groups usr d)) = set groups"
  by (auto simp: user_groups_all_iff update_rows)

lemma update_groups:
  "set (auth_group (update_user_groups_from groups usr d)) = set (auth_group d) \<union> set groups"
  unfolding update_user_groups_from_def fold_add_groups fold_remove_groups ..

lemma fold_fixed: "(\<And>x. x \<in> set xs \<Longrightarrow> f x d = d) \<Longrightarrow> fold f xs d = d"
  by (induction xs) simp_all

lemma update_fixed:
  assumes m: "set (user_groups_all usr d) = set groups"
    and g: "set groups \<subseteq> set (auth_group d)"
  shows "update_user_groups_from groups usr d = d"
proof -
  have "fold (remove_step groups usr) (user_groups_all usr d) d = d"
    using m by (intro fold_fixed) (simp add: remove_step_def)
  moreover have "fold (add_step usr) groups d = d"
  proof (rule fold_fixed)
    fix x assume x: "x \<in> set groups"
    with m have "(pk usr, x) \<in> set (auth_user_groups d)"
      by (simp add: user_groups_all_iff [symmetric])
    moreover from x g have "x \<in> set (auth_group d)" by blast
    ultimately show "add_step usr x d = d"
      by (simp add: add_step_def user_set_add_def get_or_create_def)
  qed
  ultimately show ?thesis by (simp add: update_user_groups_from_def)
qed

lemma update_idem:
  "update_user_groups_from groups usr (update_user_groups_from groups usr d)
     = update_user_groups_from groups usr d"
  by (rule update_fixed) (simp_all add: update_membership update_groups)

text \<open>The memberships of the other users are not touched.\<close>

lemma remove_step_other:
  "pk other \<noteq> pk usr \<Longrightarrow>
     user_groups_all other (remove_step groups usr g d) = user_groups_all other d"
proof -
  assume ne: "pk other \<noteq> pk usr"
  have "filter (\<lambda>row. fst row = pk other) (removeAll (pk usr, g) rows)
      = filter (\<lambda>row. fst row = pk other) rows" for rows
    using ne by (induction rows) auto
  then show ?thesis
    by (simp add: remove_step_def user_set_remove_def user_groups_all_def)
qed

lemma add_step_other:
  "pk other \<noteq> pk usr \<Longrightarrow> user_groups_all other (add_step usr g d) = user_groups_all other d"
  by (simp add: add_step_def user_set_add_def get_or_create_def user_groups_all_def)

lemma fold_remove_other:
  "pk other \<noteq> pk usr \<Longrightarrow>
     user_groups_all other (fold (remove_step groups usr) gs d) = user_groups_all other d"
  by (induction gs arbitrary: d) (simp_all add: remove_step_other)

lemma fold_add_other:
  "pk other \<noteq> pk usr \<Longrightarrow>
     user_groups_all other (fold (add_step usr) gs d) = user_groups_all other d"
  by (induction gs arbitrary: d) (simp_all add: add_step_other)

lemma update_other:
  "pk other \<noteq> pk usr \<Longrightarrow>
     user_groups_all other (update_user_groups_from groups usr d) = user_groups_all other d"
  by (simp add: update_user_groups_from_def fold_add_other fold_remove_other)

lemma fold_remove_filter:
  "auth_user_groups (fold (remove_step groups usr) gs d)
     = filter (\<lambda>row. \<not> (fst row = pk usr \<and> snd row \<in> set gs \<and> snd row \<notin> set groups))
         (auth_user_groups d)"
proof (induction gs arbitrary: d)
  case Nil
  then show ?case by simp
next
  case (Cons g gs)
  have "auth_user_groups (remove_step groups usr g d)
      = filter (\<lambda>row. \<not> (fst row = pk usr \<and> snd row = g \<and> snd row \<notin> set groups))
          (auth_user_groups d)"
    by (auto simp: remove_step_def user_set_remove_def removeAll_filter_not_eq
        intro!: filter_cong)
  then show ?case
    unfolding fold_simps Cons.IH by (auto intro!: filter_cong)
qed

lemma fold_add_append:
  "\<exists>added. auth_user_groups (fold (add_step usr) gs d) = auth_user_groups d @ added"
proof (induction gs arbitrary: d)
  case Nil
  then show ?case by simp
next
  case (Cons g gs)
  have "\<exists>a. auth_user_groups (add_step usr g d) = auth_user_groups d @ a"
    by (simp add: add_step_def user_set_add_def get_or_create_def)
  then obtain a where a: "auth_user_groups (add_step usr g d) = auth_user_groups d @ a" ..
  from Cons.IH [of "add_step usr g d"] obtain b
    where "auth_user_groups (fold (add_step usr) gs (add_step usr g d))
        = auth_user_groups (add_step usr g d) @ b" ..
  with a show ?case by simp
qed

lemma update_kept_rows:
  "\<exists>added. auth_user_groups (update_user_groups_from groups usr d)
     = filter (\<lambda>row. \<not> (fst row = pk usr \<and> snd row \<notin> set groups)) (auth_user_groups d) @ added"
proof -
  have "filter (\<lambda>row. \<not> (fst row = pk usr \<and> snd row \<in> set (user_groups_all usr d)
            \<and> snd row \<notin> set groups)) (auth_user_groups d)
      = filter (\<lambda>row. \<not> (fst row = pk usr \<and> snd row \<notin> set groups)) (auth_user_groups d)"
    by (rule filter_cong) (auto simp: user_groups_all_iff)
  with fold_add_append [of usr groups
      "fold (remove_step groups usr) (user_groups_all usr d) d"]
  show ?thesis
    by (simp add: update_user_groups_from_def fold_remove_filter)
qed

text \<open>
  C3. After \<^verbatim>\<open>update_user_groups\<close> the set of the user's groups is the set of names
  in the new list, and every name in the list is a group of the group table. A group
  the user was in whose name is not in the list is no longer one of the user's groups.
  The membership rows that stay are the rows of the old table, in their order, without
  those of this user for a name outside the list; the rows added follow them, so a
  membership whose name is in both is left as it was.
\<close>

theorem update_user_groups_full_sync:
  "set (user_groups_all usr (update_user_groups_from groups usr d)) = set groups
   \<and> set groups \<subseteq> set (auth_group (update_user_groups_from groups usr d))
   \<and> (set (user_groups_all usr d) - set groups)
        \<inter> set (user_groups_all usr (update_user_groups_from groups usr d)) = {}
   \<and> (\<exists>added. auth_user_groups (update_user_groups_from groups usr d)
         = filter (\<lambda>row. \<not> (fst row = pk usr \<and> snd row \<notin> set groups)) (auth_user_groups d)
           @ added)
   \<and> set (user_groups_all usr (update_user_groups lib cfg r usr d))
        = set (parse_group_attributes lib cfg r)"
  using update_kept_rows [of groups usr d]
  by (auto simp: update_membership update_groups update_user_groups_def)

text \<open>
  The scenario of the specification: the user is in the groups A and C, the new list
  is A, B.
\<close>

theorem update_user_groups_full_sync_witness:
  "set (user_groups_all alice db_AC) = {''A'', ''C''}
   \<and> set (user_groups_all alice (update_user_groups_from [''A'', ''B''] alice db_AC))
        = {''A'', ''B''}"
  using update_user_groups_full_sync [of alice "[''A'', ''B'']" db_AC]
  by (auto simp: user_groups_all_def db_AC_def alice_def)

text \<open>
  C7. Group reconciliation is idempotent: a second run with the same list returns the
  database the first run left, unchanged, so the membership is the same as after one
  run.
\<close>

theorem update_user_groups_idempotent:
  "update_user_groups_from groups usr (update_user_groups_from groups usr d)
      = update_user_groups_from groups usr d
   \<and> update_user_groups lib cfg r usr (update_user_groups lib cfg r usr d)
      = update_user_groups lib cfg r usr d"
  by (simp add: update_idem update_user_groups_def)

theorem update_user_groups_idempotent_witness:
  "update_user_groups_from [''A'', ''B''] alice db_AC
      = \<lparr>auth_group = [''A'', ''C'', ''B''],
         auth_user_groups = [(1, ''A''), (2, ''C''), (1, ''B'')]\<rparr>
   \<and> update_user_groups_from [''A'', ''B''] alice
        (update_user_groups_from [''A'', ''B''] alice db_AC)
      = \<lparr>auth_group = [''A'', ''C'', ''B''],
         auth_user_groups = [(1, ''A''), (2, ''C''), (1, ''B'')]\<rparr>"
proof -
  have "update_user_groups_from [''A'', ''B''] alice db_AC
      = \<lparr>auth_group = [''A'', ''C'', ''B''],
         auth_user_groups = [(1, ''A''), (2, ''C''), (1, ''B'')]\<rparr>"
    by (simp add: update_user_groups_from_def user_groups_all_def remove_step_def add_step_def
        user_set_remove_def user_set_add_def get_or_create_def db_AC_def alice_def)
  with update_user_groups_idempotent [of "[''A'', ''B'']" alice db_AC]
  show ?thesis by simp
qed

text \<open>
  C10. The membership that \<^verbatim>\<open>update_user_groups\<close> leaves depends only on the set of
  names in the list: two lists with the same names, whatever their order and their
  duplicates, leave the same groups for the user, the same set of membership rows and
  the same set of groups.
\<close>

theorem update_user_groups_set_only:
  "set groups = set groups' \<Longrightarrow>
     set (user_groups_all usr (update_user_groups_from groups usr d))
       = set (user_groups_all usr (update_user_groups_from groups' usr d))
     \<and> set (auth_user_groups (update_user_groups_from groups usr d))
       = set (auth_user_groups (update_user_groups_from groups' usr d))
     \<and> set (auth_group (update_user_groups_from groups usr d))
       = set (auth_group (update_user_groups_from groups' usr d))"
  by (simp add: update_membership update_groups update_rows)

theorem update_user_groups_set_only_witness:
  "set [''A'', ''B''] = set [''B'', ''A'', ''B'']
   \<and> set (user_groups_all alice (update_user_groups_from [''A'', ''B''] alice db_AC))
       = set (user_groups_all alice (update_user_groups_from [''B'', ''A'', ''B''] alice db_AC))"
proof -
  have s: "set [''A'', ''B''] = set [''B'', ''A'', ''B'']" by auto
  from update_user_groups_set_only [OF s, of alice db_AC] s show ?thesis by blast
qed

section \<open>The request hook: results\<close>

text \<open>
  C4, as amended. On a request that has a current-user slot, when the remote-user
  header is absent, or present but empty after the optional decoding,
  \<^verbatim>\<open>process_request\<close> returns without raising and leaves the whole state as it was:
  the current-user slot, the session, the database and the record of calls.
\<close>

theorem process_request_no_identity:
  "user (req w) = Some current \<Longrightarrow>
   META (req w) (header cfg) = None
     \<or> (\<exists>raw. META (req w) (header cfg) = Some raw \<and> decode lib cfg raw = []) \<Longrightarrow>
   process_request lib cfg w = (Inr (), w)"
  by (auto simp: process_request_def Let_def)

theorem process_request_no_identity_witness:
  "process_request lib0 cfg_mail_cn (world_of req_no_header) = (Inr (), world_of req_no_header)
   \<and> process_request lib0 cfg_mail_cn (world_of req_empty_header)
        = (Inr (), world_of req_empty_header)"
proof -
  have "process_request lib0 cfg_mail_cn (world_of req_no_header) = (Inr (), world_of req_no_header)"
    using process_request_no_identity [of "world_of req_no_header" anonymous cfg_mail_cn lib0]
    by (simp add: ex_defs req_no_header_def)
  moreover have "process_request lib0 cfg_mail_cn (world_of req_empty_header)
        = (Inr (), world_of req_empty_header)"
    using process_request_no_identity [of "world_of req_empty_header" anonymous cfg_mail_cn lib0]
    by (simp add: ex_defs req_empty_header_def)
  ultimately show ?thesis by simp
qed

text \<open>
  C4 as it is stated fails on a request without the attribute \<^verbatim>\<open>request.user\<close>: the
  header is absent, and lines 22 to 29 raise \<^verbatim>\<open>ImproperlyConfigured\<close>.
\<close>

theorem process_request_no_identity_counterexample:
  "META (req (world_of req_no_slot)) (header cfg_mail_cn) = None
   \<and> process_request lib0 cfg_mail_cn (world_of req_no_slot)
        = (Inl ImproperlyConfigured, world_of req_no_slot)"
  by (simp add: process_request_def ex_defs req_no_slot_def)

text \<open>
  C5. When the current user is authenticated and its username equals the decoded and
  cleaned value of the remote-user header, \<^verbatim>\<open>process_request\<close> returns with the whole
  state as it was: the session entry \<^verbatim>\<open>"shib"\<close> is the one that was there before, and
  no call is recorded, so \<^verbatim>\<open>parse_attributes\<close> has not been invoked.
\<close>

theorem process_request_fast_path:
  "user (req w) = Some current \<Longrightarrow> is_authenticated current \<Longrightarrow>
   META (req w) (header cfg) = Some raw \<Longrightarrow>
   clean_username lib (decode lib cfg raw) (req w) = Inr (username current) \<Longrightarrow>
   process_request lib cfg w = (Inr (), w)
   \<and> session (req (snd (process_request lib cfg w))) ''shib'' = session (req w) ''shib''
   \<and> calls (snd (process_request lib cfg w)) = calls w"
  by (simp add: process_request_def Let_def)

text \<open>
  The scenario of the specification: the header says alice, alice is logged in, and
  the session holds an older attribute map.
\<close>

theorem process_request_fast_path_witness:
  "process_request lib0 cfg_mail_cn (world_of req_alice_again) = (Inr (), world_of req_alice_again)
   \<and> session (req (snd (process_request lib0 cfg_mail_cn (world_of req_alice_again)))) ''shib''
        = Some (ShibMeta [(''mail'', ''old@example.com'')])
   \<and> calls (snd (process_request lib0 cfg_mail_cn (world_of req_alice_again))) = []"
  using process_request_fast_path [of "world_of req_alice_again" alice cfg_mail_cn "''alice''" lib0]
  by (simp add: ex_defs req_alice_again_def)

text \<open>
  An exception of \<^verbatim>\<open>clean_username\<close> on line 50 leaves \<^verbatim>\<open>process_request\<close> with the
  state as it was: nothing has been parsed or stored.
\<close>

lemma process_request_clean_username_raises:
  "user (req w) = Some current \<Longrightarrow> is_authenticated current \<Longrightarrow>
   META (req w) (header cfg) = Some raw \<Longrightarrow> decode lib cfg raw \<noteq> [] \<Longrightarrow>
   clean_username lib (decode lib cfg raw) (req w) = Inl e \<Longrightarrow>
   process_request lib cfg w = (Inl e, w)"
  by (simp add: process_request_def Let_def)

lemma stored_world_session:
  "session (req (stored_world lib cfg w)) ''shib''
     = Some (ShibMeta (fst (parse_attributes lib cfg (req w))))"
  by (simp add: stored_world_def record_call_def)

lemma parse_and_store_eq:
  "parse_and_store lib cfg uname w =
     (if snd (parse_attributes lib cfg (req w))
      then (Inl (ShibbolethValidationError (fst (parse_attributes lib cfg (req w)))),
            stored_world lib cfg w)
      else (Inr (), authenticate_and_login lib cfg uname (fst (parse_attributes lib cfg (req w)))
              (stored_world lib cfg w)))"
  by (simp add: parse_and_store_def stored_world_def record_call_def Let_def split: prod.splits)

text \<open>
  The fast-path test of lines 48 to 51 is passed, without a return and without an
  exception, when the current user is not authenticated, or when \<^verbatim>\<open>clean_username\<close>
  returns a name that is not the user's.
\<close>

lemma process_request_slow_path:
  "user (req w) = Some current \<Longrightarrow> META (req w) (header cfg) = Some raw \<Longrightarrow>
   decode lib cfg raw \<noteq> [] \<Longrightarrow>
   \<not> is_authenticated current
     \<or> (\<exists>cleaned. clean_username lib (decode lib cfg raw) (req w) = Inr cleaned
          \<and> cleaned \<noteq> username current) \<Longrightarrow>
   process_request lib cfg w = parse_and_store lib cfg (decode lib cfg raw) w"
  by (auto simp: process_request_def Let_def)

text \<open>
  C2, as amended. On a request that has a current-user slot and a non-empty remote-user
  header and passes the fast-path test (the current user is not authenticated, or
  \<^verbatim>\<open>clean_username\<close> returns a name that is not the user's), \<^verbatim>\<open>process_request\<close>
  stores the parsed map in the session under \<^verbatim>\<open>"shib"\<close> first. When parsing reports an
  error it raises the validation error carrying that partial map and the state left
  behind is the one with the session write; otherwise it goes on from that state to the
  authentication.
\<close>

theorem process_request_stores_shib:
  assumes "user (req w) = Some current"
    and "META (req w) (header cfg) = Some raw"
    and "decode lib cfg raw \<noteq> []"
    and "\<not> is_authenticated current
          \<or> (\<exists>cleaned. clean_username lib (decode lib cfg raw) (req w) = Inr cleaned
               \<and> cleaned \<noteq> username current)"
  shows "session (req (stored_world lib cfg w)) ''shib''
           = Some (ShibMeta (fst (parse_attributes lib cfg (req w))))
     \<and> (snd (parse_attributes lib cfg (req w)) \<longrightarrow>
          process_request lib cfg w
            = (Inl (ShibbolethValidationError (fst (parse_attributes lib cfg (req w)))),
               stored_world lib cfg w))
     \<and> (\<not> snd (parse_attributes lib cfg (req w)) \<longrightarrow>
          process_request lib cfg w
            = (Inr (), authenticate_and_login lib cfg (decode lib cfg raw)
                 (fst (parse_attributes lib cfg (req w))) (stored_world lib cfg w)))"
  using process_request_slow_path [OF assms]
  by (simp add: parse_and_store_eq stored_world_session)

lemma parse_bob_no_mail:
  "parse_attributes lib0 cfg_mail_cn req_bob_no_mail = ([(''cn'', ''Bob'')], True)"
  by (simp add: parse_attributes_def ex_defs req_bob_no_mail_def)

lemma parse_alice_as_bob_no_mail:
  "parse_attributes lib0 cfg_mail_cn req_alice_as_bob_no_mail = ([(''cn'', ''Bob'')], True)"
  by (simp add: parse_attributes_def ex_defs req_alice_as_bob_no_mail_def)

text \<open>
  The required \<^verbatim>\<open>HTTP_MAIL\<close> is missing, on a request of the anonymous user and on
  one of the logged-in alice whose header says bob.
\<close>

theorem process_request_stores_shib_witness:
  "fst (process_request lib0 cfg_mail_cn (world_of req_bob_no_mail))
      = Inl (ShibbolethValidationError [(''cn'', ''Bob'')])
   \<and> session (req (snd (process_request lib0 cfg_mail_cn (world_of req_bob_no_mail)))) ''shib''
      = Some (ShibMeta [(''cn'', ''Bob'')])
   \<and> fst (process_request lib0 cfg_mail_cn (world_of req_alice_as_bob_no_mail))
      = Inl (ShibbolethValidationError [(''cn'', ''Bob'')])
   \<and> session (req (snd (process_request lib0 cfg_mail_cn (world_of req_alice_as_bob_no_mail))))
        ''shib''
      = Some (ShibMeta [(''cn'', ''Bob'')])"
proof -
  have r: "req (world_of req_bob_no_mail) = req_bob_no_mail"
    and r': "req (world_of req_alice_as_bob_no_mail) = req_alice_as_bob_no_mail"
    by (simp_all add: world_of_def)
  have "user (req (world_of req_bob_no_mail)) = Some anonymous"
    and "META (req (world_of req_bob_no_mail)) (header cfg_mail_cn) = Some ''bob''"
    and "decode lib0 cfg_mail_cn ''bob'' \<noteq> []"
    and "\<not> is_authenticated anonymous
          \<or> (\<exists>cleaned. clean_username lib0 (decode lib0 cfg_mail_cn ''bob'')
                (req (world_of req_bob_no_mail)) = Inr cleaned
               \<and> cleaned \<noteq> username anonymous)"
    by (simp_all add: ex_defs req_bob_no_mail_def)
  from process_request_stores_shib [OF this]
  have a: "fst (process_request lib0 cfg_mail_cn (world_of req_bob_no_mail))
      = Inl (ShibbolethValidationError [(''cn'', ''Bob'')])
   \<and> session (req (snd (process_request lib0 cfg_mail_cn (world_of req_bob_no_mail)))) ''shib''
      = Some (ShibMeta [(''cn'', ''Bob'')])"
    by (simp add: r parse_bob_no_mail)
  have "user (req (world_of req_alice_as_bob_no_mail)) = Some alice"
    and "META (req (world_of req_alice_as_bob_no_mail)) (header cfg_mail_cn) = Some ''bob''"
    and "decode lib0 cfg_mail_cn ''bob'' \<noteq> []"
    and "\<not> is_authenticated alice
          \<or> (\<exists>cleaned. clean_username lib0 (decode lib0 cfg_mail_cn ''bob'')
                (req (world_of req_alice_as_bob_no_mail)) = Inr cleaned
               \<and> cleaned \<noteq> username alice)"
    by (simp_all add: ex_defs req_alice_as_bob_no_mail_def)
  from process_request_stores_shib [OF this]
  have b: "fst (process_request lib0 cfg_mail_cn (world_of req_alice_as_bob_no_mail))
      = Inl (ShibbolethValidationError [(''cn'', ''Bob'')])
   \<and> session (req (snd (process_request lib0 cfg_mail_cn (world_of req_alice_as_bob_no_mail))))
        ''shib''
      = Some (ShibMeta [(''cn'', ''Bob'')])"
    by (simp add: r' parse_alice_as_bob_no_mail)
  from a b show ?thesis by simp
qed

text \<open>
  C2 as it is stated fails in two ways. On a request without the attribute
  \<^verbatim>\<open>request.user\<close> the header is not empty and the fast path is not taken, but
  \<^verbatim>\<open>ImproperlyConfigured\<close> is raised before anything is stored. On a request of the
  logged-in alice whose header says bob and whose session does not hold the backend,
  the fast path is not taken either, but \<^verbatim>\<open>clean_username\<close> raises \<^verbatim>\<open>KeyError\<close> on
  line 50, again before anything is stored.
\<close>

theorem process_request_stores_shib_counterexample:
  "META (req (world_of req_no_slot_alice)) (header cfg_mail_cn) = Some ''alice''
   \<and> process_request lib0 cfg_mail_cn (world_of req_no_slot_alice)
        = (Inl ImproperlyConfigured, world_of req_no_slot_alice)
   \<and> session (req (world_of req_no_slot_alice)) ''shib'' = None
   \<and> META (req (world_of req_alice_as_bob_no_backend)) (header cfg_mail_cn) = Some ''bob''
   \<and> process_request lib0 cfg_mail_cn (world_of req_alice_as_bob_no_backend)
        = (Inl (KeyError ''_auth_user_backend''), world_of req_alice_as_bob_no_backend)
   \<and> session (req (world_of req_alice_as_bob_no_backend)) ''shib'' = None"
  by (simp add: process_request_def ex_defs req_no_slot_alice_def
      req_alice_as_bob_no_backend_def Let_def)

text \<open>
  C6, as amended. On a request that has a current-user slot and a non-empty remote-user
  header and passes the fast-path test (the current user is not authenticated, or
  \<^verbatim>\<open>clean_username\<close> returns a name that is not the user's), when parsing succeeds and
  the backend returns no match, \<^verbatim>\<open>process_request\<close> returns without raising; the
  session is the old one with the parsed map stored under \<^verbatim>\<open>"shib"\<close> and nothing else
  changed; the current-user slot, the headers and the database are as they were; and
  the calls made are the parse and the authentication only, so no login is performed.
\<close>

theorem process_request_no_match:
  assumes "user (req w) = Some current"
    and "META (req w) (header cfg) = Some raw"
    and "decode lib cfg raw \<noteq> []"
    and "\<not> is_authenticated current
          \<or> (\<exists>cleaned. clean_username lib (decode lib cfg raw) (req w) = Inr cleaned
               \<and> cleaned \<noteq> username current)"
    and "\<not> snd (parse_attributes lib cfg (req w))"
    and "authenticate lib (req (stored_world lib cfg w)) (decode lib cfg raw)
           (fst (parse_attributes lib cfg (req w))) = None"
  shows "fst (process_request lib cfg w) = Inr ()
     \<and> session (req (snd (process_request lib cfg w)))
          = (session (req w))(''shib'' \<mapsto> ShibMeta (fst (parse_attributes lib cfg (req w))))
     \<and> user (req (snd (process_request lib cfg w))) = user (req w)
     \<and> META (req (snd (process_request lib cfg w))) = META (req w)
     \<and> db (snd (process_request lib cfg w)) = db w
     \<and> calls (snd (process_request lib cfg w))
          = calls w @ [Call_parse_attributes,
              Call_authenticate (decode lib cfg raw) (fst (parse_attributes lib cfg (req w)))]"
proof -
  have "process_request lib cfg w
      = (Inr (), record_call (Call_authenticate (decode lib cfg raw)
            (fst (parse_attributes lib cfg (req w)))) (stored_world lib cfg w))"
    using process_request_slow_path [OF assms(1-4)] assms(5,6)
    by (simp add: parse_and_store_eq authenticate_and_login_def record_call_def Let_def)
  then show ?thesis
    by (simp add: stored_world_def record_call_def)
qed

lemma parse_bob:
  "parse_attributes lib0 cfg_mail_cn req_bob = ([(''mail'', ''bob@example.com'')], False)"
  by (simp add: parse_attributes_def ex_defs req_bob_def)

lemma parse_alice_as_bob:
  "parse_attributes lib0 cfg_mail_cn req_alice_as_bob = ([(''mail'', ''bob@example.com'')], False)"
  by (simp add: parse_attributes_def ex_defs req_alice_as_bob_def)

lemma parse_no_slot_bob:
  "parse_attributes lib0 cfg_mail_cn req_no_slot_bob = ([(''mail'', ''bob@example.com'')], False)"
  by (simp add: parse_attributes_def ex_defs req_no_slot_bob_def)

text \<open>
  A request of the anonymous user, and one of the logged-in alice whose header says
  bob and whose session holds the backend.
\<close>

theorem process_request_no_match_witness:
  "fst (process_request lib0 cfg_mail_cn (world_of req_bob)) = Inr ()
   \<and> session (req (snd (process_request lib0 cfg_mail_cn (world_of req_bob)))) ''shib''
        = Some (ShibMeta [(''mail'', ''bob@example.com'')])
   \<and> user (req (snd (process_request lib0 cfg_mail_cn (world_of req_bob)))) = Some anonymous
   \<and> calls (snd (process_request lib0 cfg_mail_cn (world_of req_bob)))
        = [Call_parse_attributes, Call_authenticate ''bob'' [(''mail'', ''bob@example.com'')]]
   \<and> fst (process_request lib0 cfg_mail_cn (world_of req_alice_as_bob)) = Inr ()
   \<and> session (req (snd (process_request lib0 cfg_mail_cn (world_of req_alice_as_bob)))) ''shib''
        = Some (ShibMeta [(''mail'', ''bob@example.com'')])
   \<and> session (req (snd (process_request lib0 cfg_mail_cn (world_of req_alice_as_bob))))
        ''_auth_user_backend'' = Some backend_path
   \<and> calls (snd (process_request lib0 cfg_mail_cn (world_of req_alice_as_bob)))
        = [Call_parse_attributes, Call_authenticate ''bob'' [(''mail'', ''bob@example.com'')]]"
proof -
  have r: "req (world_of req_bob) = req_bob"
    and r': "req (world_of req_alice_as_bob) = req_alice_as_bob"
    by (simp_all add: world_of_def)
  have "user (req (world_of req_bob)) = Some anonymous"
    and "META (req (world_of req_bob)) (header cfg_mail_cn) = Some ''bob''"
    and "decode lib0 cfg_mail_cn ''bob'' \<noteq> []"
    and "\<not> is_authenticated anonymous
          \<or> (\<exists>cleaned. clean_username lib0 (decode lib0 cfg_mail_cn ''bob'')
                (req (world_of req_bob)) = Inr cleaned
               \<and> cleaned \<noteq> username anonymous)"
    and "\<not> snd (parse_attributes lib0 cfg_mail_cn (req (world_of req_bob)))"
    and "authenticate lib0 (req (stored_world lib0 cfg_mail_cn (world_of req_bob)))
           (decode lib0 cfg_mail_cn ''bob'')
           (fst (parse_attributes lib0 cfg_mail_cn (req (world_of req_bob)))) = None"
    by (simp_all add: r parse_bob) (simp_all add: ex_defs req_bob_def)
  from process_request_no_match [OF this]
  have a: "fst (process_request lib0 cfg_mail_cn (world_of req_bob)) = Inr ()
   \<and> session (req (snd (process_request lib0 cfg_mail_cn (world_of req_bob)))) ''shib''
        = Some (ShibMeta [(''mail'', ''bob@example.com'')])
   \<and> user (req (snd (process_request lib0 cfg_mail_cn (world_of req_bob)))) = Some anonymous
   \<and> calls (snd (process_request lib0 cfg_mail_cn (world_of req_bob)))
        = [Call_parse_attributes, Call_authenticate ''bob'' [(''mail'', ''bob@example.com'')]]"
    by (simp add: r parse_bob) (simp add: ex_defs req_bob_def)
  have "user (req (world_of req_alice_as_bob)) = Some alice"
    and "META (req (world_of req_alice_as_bob)) (header cfg_mail_cn) = Some ''bob''"
    and "decode lib0 cfg_mail_cn ''bob'' \<noteq> []"
    and "\<not> is_authenticated alice
          \<or> (\<exists>cleaned. clean_username lib0 (decode lib0 cfg_mail_cn ''bob'')
                (req (world_of req_alice_as_bob)) = Inr cleaned
               \<and> cleaned \<noteq> username alice)"
    and "\<not> snd (parse_attributes lib0 cfg_mail_cn (req (world_of req_alice_as_bob)))"
    and "authenticate lib0 (req (stored_world lib0 cfg_mail_cn (world_of req_alice_as_bob)))
           (decode lib0 cfg_mail_cn ''bob'')
           (fst (parse_attributes lib0 cfg_mail_cn (req (world_of req_alice_as_bob)))) = None"
    by (simp_all add: r' parse_alice_as_bob) (simp_all add: ex_defs req_alice_as_bob_def)
  from process_request_no_match [OF this]
  have b: "fst (process_request lib0 cfg_mail_cn (world_of req_alice_as_bob)) = Inr ()
   \<and> session (req (snd (process_request lib0 cfg_mail_cn (world_of req_alice_as_bob)))) ''shib''
        = Some (ShibMeta [(''mail'', ''bob@example.com'')])
   \<and> session (req (snd (process_request lib0 cfg_mail_cn (world_of req_alice_as_bob))))
        ''_auth_user_backend'' = Some backend_path
   \<and> calls (snd (process_request lib0 cfg_mail_cn (world_of req_alice_as_bob)))
        = [Call_parse_attributes, Call_authenticate ''bob'' [(''mail'', ''bob@example.com'')]]"
    by (simp add: r' parse_alice_as_bob) (simp add: ex_defs req_alice_as_bob_def)
  from a b show ?thesis by simp
qed

text \<open>
  C6 as it is stated fails. With parsing successful and a backend that matches nobody,
  the session of an anonymous request gains the entry \<^verbatim>\<open>"shib"\<close>; a request without
  the attribute \<^verbatim>\<open>request.user\<close> raises \<^verbatim>\<open>ImproperlyConfigured\<close>; and a request of
  the logged-in alice whose header says bob, with the backend in its session, keeps
  alice as its user, so it does not go on anonymously.
\<close>

theorem process_request_no_match_counterexample:
  "session (req (world_of req_bob)) ''shib'' = None
   \<and> parse_attributes lib0 cfg_mail_cn req_bob = ([(''mail'', ''bob@example.com'')], False)
   \<and> fst (process_request lib0 cfg_mail_cn (world_of req_bob)) = Inr ()
   \<and> session (req (snd (process_request lib0 cfg_mail_cn (world_of req_bob)))) ''shib''
        = Some (ShibMeta [(''mail'', ''bob@example.com'')])
   \<and> parse_attributes lib0 cfg_mail_cn req_no_slot_bob = ([(''mail'', ''bob@example.com'')], False)
   \<and> fst (process_request lib0 cfg_mail_cn (world_of req_no_slot_bob)) = Inl ImproperlyConfigured
   \<and> session (req (world_of req_alice_as_bob)) ''_auth_user_backend'' = Some backend_path
   \<and> parse_attributes lib0 cfg_mail_cn req_alice_as_bob = ([(''mail'', ''bob@example.com'')], False)
   \<and> fst (process_request lib0 cfg_mail_cn (world_of req_alice_as_bob)) = Inr ()
   \<and> user (req (snd (process_request lib0 cfg_mail_cn (world_of req_alice_as_bob)))) = Some alice"
proof -
  have a: "process_request lib0 cfg_mail_cn (world_of req_bob)
      = parse_and_store lib0 cfg_mail_cn ''bob'' (world_of req_bob)"
    by (simp add: process_request_def ex_defs req_bob_def Let_def)
  have b: "process_request lib0 cfg_mail_cn (world_of req_alice_as_bob)
      = parse_and_store lib0 cfg_mail_cn ''bob'' (world_of req_alice_as_bob)"
    by (simp add: process_request_def ex_defs req_alice_as_bob_def Let_def)
  have c: "fst (process_request lib0 cfg_mail_cn (world_of req_no_slot_bob)) = Inl ImproperlyConfigured"
    by (simp add: process_request_def ex_defs req_no_slot_bob_def)
  have ra: "req (world_of req_bob) = req_bob" and rb: "req (world_of req_alice_as_bob) = req_alice_as_bob"
    by (simp_all add: world_of_def)
  have la: "authenticate lib0 = (\<lambda>r u m. None)" by (simp add: lib0_def)
  have sa: "session req_bob ''shib'' = None"
    by (simp add: req_bob_def)
  have ua: "user req_alice_as_bob = Some alice"
    and sb: "session req_alice_as_bob ''_auth_user_backend'' = Some backend_path"
    by (simp_all add: req_alice_as_bob_def)
  show ?thesis
    unfolding a b
    by (simp add: c sa sb parse_and_store_eq ra rb parse_bob parse_alice_as_bob parse_no_slot_bob
        authenticate_and_login_def record_call_def stored_world_def la Let_def ua)
qed

text \<open>
  When the backend returns a user, the user is put in the slot and logged in, the
  groups are updated when group attributes are configured, and each of the two hooks is
  called once, after the login, whether or not the groups are updated.
\<close>

lemma authenticate_and_login_match:
  "authenticate lib (req w) uname m = Some usr \<Longrightarrow>
   calls (authenticate_and_login lib cfg uname m w)
     = calls w @ [Call_authenticate uname m, Call_login usr]
       @ (if GROUP_ATTRIBUTES cfg \<noteq> [] then [Call_update_user_groups usr] else [])
       @ [Call_make_profile usr m, Call_setup_session]
   \<and> req (authenticate_and_login lib cfg uname m w)
       = login lib ((req w)\<lparr>user := Some usr\<rparr>) usr
   \<and> db (authenticate_and_login lib cfg uname m w)
       = (if GROUP_ATTRIBUTES cfg \<noteq> []
          then update_user_groups lib cfg (login lib ((req w)\<lparr>user := Some usr\<rparr>) usr) usr (db w)
          else db w)"
  by (simp add: authenticate_and_login_def record_call_def make_profile_def setup_session_def
      Let_def)

end
